theory Spec2Isabelle
  imports Main "HOL-Library.Word"
begin

section \<open>JavaScript values used by \<open>src/clients/openai.js\<close>\<close>

text \<open>
  Strings are lists of 8-bit characters (code units below 256); a \<open>Buffer\<close> is a list of
  bytes. A property that may be missing (\<open>undefined\<close> or \<open>null\<close>) is an \<open>option\<close>.
  An exception is a value of type \<open>error\<close>, returned as \<open>Inl\<close>.
\<close>

type_synonym byte = "8 word"

datatype error = TypeError | ReferenceError | ProviderError string

text \<open>\<open>String.prototype.trim\<close>: the white space and line terminators below 256.\<close>

definition isWhiteSpace :: "char \<Rightarrow> bool" where
  "isWhiteSpace c =
     (c \<in> set [CHR 0x09, CHR 0x0A, CHR 0x0B, CHR 0x0C, CHR 0x0D, CHR 0x20, CHR 0xA0])"

definition trim :: "string \<Rightarrow> string" where
  "trim s = rev (dropWhile isWhiteSpace (rev (dropWhile isWhiteSpace s)))"

text \<open>
  \<open>toLowerCase\<close> on code units below 256: A-Z and the Latin-1 capitals 0xC0-0xDE
  (without the multiplication sign 0xD7) move up by 0x20.
\<close>

definition lowerChar :: "char \<Rightarrow> char" where
  "lowerChar c =
     (let n = (of_char c :: nat)
      in if (65 \<le> n \<and> n \<le> 90) \<or> (192 \<le> n \<and> n \<le> 222 \<and> n \<noteq> 215)
         then char_of (n + 32) else c)"

definition toLowerCase :: "string \<Rightarrow> string" where
  "toLowerCase s = map lowerChar s"

text \<open>
  \<open>toUpperCase\<close> is only applied to an extension of the recognised text list, where it
  is the ASCII mapping; the Latin-1 small letters 0xE0-0xFE (without 0xF7) are mapped as
  well, the three code units whose capital is not below 256 are left alone.
\<close>

definition upperChar :: "char \<Rightarrow> char" where
  "upperChar c =
     (let n = (of_char c :: nat)
      in if (97 \<le> n \<and> n \<le> 122) \<or> (224 \<le> n \<and> n \<le> 254 \<and> n \<noteq> 247)
         then char_of (n - 32) else c)"

definition toUpperCase :: "string \<Rightarrow> string" where
  "toUpperCase s = map upperChar s"

text \<open>
  \<open>path.extname\<close> of Node (POSIX flavour), after its documentation: trailing separators
  are ignored, the last path component is taken, and the extension runs from the last dot
  of that component to its end; a component without a dot, one whose only dot is its
  first character, and the component \<open>..\<close> have the empty extension.
\<close>

definition extname :: "string \<Rightarrow> string" where
  "extname p =
     (let trimmed = rev (dropWhile (\<lambda>c. c = CHR ''/'') (rev p));
          base = rev (takeWhile (\<lambda>c. c \<noteq> CHR ''/'') (rev trimmed));
          ext = rev (takeWhile (\<lambda>c. c \<noteq> CHR ''.'') (rev base))
      in if CHR ''.'' \<notin> set base then []
         else if length ext + 1 = length base then []
         else if base = ''..'' then []
         else CHR ''.'' # ext)"

text \<open>\<open>Buffer.toString("base64")\<close>: three bytes give four characters, padded with \<open>=\<close>.\<close>

definition base64Alphabet :: string where
  "base64Alphabet =
     ''ABCDEFGHIJKLMNOPQRSTUVWXYZabcdefghijklmnopqrstuvwxyz0123456789+/''"

definition sextet :: "nat \<Rightarrow> char" where
  "sextet n = base64Alphabet ! (n mod 64)"

fun base64 :: "byte list \<Rightarrow> string" where
  "base64 [] = []"
| "base64 [a] =
     (let n = unat a * 16 in [sextet (n div 64), sextet n, CHR ''='', CHR ''=''])"
| "base64 [a, b] =
     (let n = (unat a * 256 + unat b) * 4
      in [sextet (n div 4096), sextet (n div 64), sextet n, CHR ''=''])"
| "base64 (a # b # c # rest) =
     (let n = unat a * 65536 + unat b * 256 + unat c
      in sextet (n div 262144) # sextet (n div 4096) # sextet (n div 64) # sextet n
           # base64 rest)"

text \<open>
  What the module takes from outside: the UTF-8 decoding of a buffer
  (\<open>Buffer.toString("utf-8")\<close>) and the three instruction texts read from
  \<open>src/prompts\<close> when the module is loaded. Every theorem holds for any of them.
\<close>

record env =
  toUtf8 :: "byte list \<Rightarrow> string"
  graderInstructions :: string
  freeResponseInstructions :: string
  successInstructions :: string

section \<open>Uploaded files and content blocks\<close>

text \<open>
  A file of the upload middleware: \<open>originalname\<close> or \<open>name\<close> may be missing, the
  buffer is there (the documentation of \<open>promptTutor\<close> asks for it).
\<close>

record upload =
  originalname :: "string option"
  name :: "string option"
  buffer :: "byte list"

text \<open>
  A content block: \<open>type\<close>, and the properties \<open>text\<close>, \<open>image_url\<close> and \<open>noShow\<close>
  where present.
\<close>

record block =
  btype :: string
  btext :: "string option"
  image_url :: "string option"
  bnoShow :: "bool option"

text \<open>\<open>file.originalname || file.name\<close>: the first of the two that is not falsy.\<close>

definition fileName :: "upload \<Rightarrow> string option" where
  "fileName f =
     (case originalname f of
        Some s \<Rightarrow> if s \<noteq> [] then Some s else name f
      | None \<Rightarrow> name f)"

text \<open>The same expression inside a template literal.\<close>

definition shownName :: "upload \<Rightarrow> string" where
  "shownName f = (case fileName f of Some s \<Rightarrow> s | None \<Rightarrow> ''undefined'')"

definition fileExtension :: "upload \<Rightarrow> string" where
  "fileExtension f =
     toLowerCase (extname (case fileName f of Some s \<Rightarrow> s | None \<Rightarrow> []))"

definition imageExtensions :: "string list" where
  "imageExtensions = [''.jpg'', ''.jpeg'', ''.png'', ''.gif'', ''.bmp'', ''.webp'']"

definition textExtensions :: "string list" where
  "textExtensions =
     [''.txt'', ''.md'', ''.json'', ''.xml'', ''.html'', ''.css'', ''.js'', ''.ts'',
      ''.jsx'', ''.tsx'']"

text \<open>The magic-byte sniff, local to \<open>processFile\<close>; \<open>None\<close> is its \<open>null\<close>.\<close>

definition isImageByContent :: "byte list \<Rightarrow> string option" where
  "isImageByContent b =
     (if length b < 4 then None
      else if b ! 0 = 0x89 \<and> b ! 1 = 0x50 \<and> b ! 2 = 0x4e \<and> b ! 3 = 0x47
        then Some ''image/png''
      else if b ! 0 = 0xff \<and> b ! 1 = 0xd8 \<and> b ! 2 = 0xff
        then Some ''image/jpeg''
      else if b ! 0 = 0x47 \<and> b ! 1 = 0x49 \<and> b ! 2 = 0x46 \<and> b ! 3 = 0x38
        then Some ''image/gif''
      else if b ! 0 = 0x42 \<and> b ! 1 = 0x4d
        then Some ''image/bmp''
      else if 12 \<le> length b \<and> b ! 0 = 0x52 \<and> b ! 1 = 0x49 \<and> b ! 2 = 0x46
          \<and> b ! 3 = 0x46 \<and> b ! 8 = 0x57 \<and> b ! 9 = 0x45 \<and> b ! 10 = 0x42
          \<and> b ! 11 = 0x50
        then Some ''image/webp''
      else None)"

definition imageBlock :: "string \<Rightarrow> byte list \<Rightarrow> block" where
  "imageBlock mimetype b =
     \<lparr>btype = ''input_image'', btext = None,
      image_url = Some (''data:'' @ mimetype @ '';base64,'' @ base64 b),
      bnoShow = Some True\<rparr>"

definition textBlock :: "string \<Rightarrow> block" where
  "textBlock t =
     \<lparr>btype = ''input_text'', btext = Some t, image_url = None, bnoShow = Some True\<rparr>"

definition unsupportedText :: "upload \<Rightarrow> string" where
  "unsupportedText f =
     ''Unsupported File Type ('' @ fileExtension f @ '') - '' @ shownName f
       @ '':\<newline>\<newline>[File content could not be processed. Please convert to a supported format.]''"

definition fileText :: "env \<Rightarrow> string \<Rightarrow> upload \<Rightarrow> string" where
  "fileText E label f =
     label @ '' ('' @ shownName f @ ''):\<newline>\<newline>'' @ toUtf8 E (buffer f)"

definition processFile :: "env \<Rightarrow> upload option \<Rightarrow> block option" where
  "processFile E upl =
     (case upl of
        None \<Rightarrow> None
      | Some f \<Rightarrow>
          (if fileExtension f \<in> set imageExtensions
             then Some (imageBlock (''image/'' @ drop 1 (fileExtension f)) (buffer f))
           else case isImageByContent (buffer f) of
             Some detectedMimeType \<Rightarrow> Some (imageBlock detectedMimeType (buffer f))
           | None \<Rightarrow>
               if fileExtension f = ''.py''
                 then Some (textBlock (fileText E ''Python Code File'' f))
               else if fileExtension f = ''.csv''
                 then Some (textBlock (fileText E ''CSV Data File'' f))
               else if fileExtension f \<in> set textExtensions
                 then Some (textBlock
                   (fileText E (drop 1 (toUpperCase (fileExtension f)) @ '' File'') f))
               else Some (textBlock (unsupportedText f))))"

section \<open>Messages\<close>

text \<open>
  The \<open>content\<close> of a message is a string, an array of content blocks, or missing (a
  reasoning item of the provider has none). \<open>role\<close>, \<open>type\<close> and \<open>noShow\<close> may be
  missing. The other properties of a message (\<open>id\<close>, \<open>status\<close>, \<open>summary\<close>) are copied
  by every object spread of the module and read nowhere; they are left out.
\<close>

datatype content = Str string | Arr "block list" | Undefined

record message =
  role :: "string option"
  mtype :: "string option"
  content :: content
  noShow :: "bool option"

text \<open>\<open>hasImagesInMessages\<close> (lines 40-54); a missing or string content gives \<open>false\<close>.\<close>

definition hasImagesInMessages :: "message list \<Rightarrow> bool" where
  "hasImagesInMessages messages =
     list_ex (\<lambda>m. case content m of
                 Arr items \<Rightarrow> list_ex (\<lambda>item. btype item = ''image_url'') items
               | Str s \<Rightarrow> False
               | Undefined \<Rightarrow> False) messages"

section \<open>The transcript compactor: \<open>processChatHistory\<close> (lines 208-222)\<close>

text \<open>
  On one message. \<open>filter(...)[0]?.text || message.content\<close>: the first block whose type
  is not \<open>input_image\<close>, its text when that is a non-empty string, the content itself
  otherwise. \<open>message.content.filter\<close> on a missing content raises a TypeError.
\<close>

definition compactMessage :: "message \<Rightarrow> error + message" where
  "compactMessage m =
     (if mtype m = Some ''reasoning'' then Inr (m\<lparr>noShow := Some True\<rparr>)
      else case content m of
        Str s \<Rightarrow> Inr (m\<lparr>content := Str s\<rparr>)
      | Undefined \<Rightarrow> Inl TypeError
      | Arr items \<Rightarrow>
          (case filter (\<lambda>sub. btype sub \<noteq> ''input_image'') items of
             [] \<Rightarrow> Inr (m\<lparr>content := Arr items\<rparr>)
           | sub # rest \<Rightarrow>
               (case btext sub of
                  None \<Rightarrow> Inr (m\<lparr>content := Arr items\<rparr>)
                | Some t \<Rightarrow>
                    if t \<noteq> [] then Inr (m\<lparr>content := Str t\<rparr>)
                    else Inr (m\<lparr>content := Arr items\<rparr>))))"

text \<open>\<open>messages.map\<close>: the first exception ends the map.\<close>

fun processChatHistory :: "message list \<Rightarrow> error + message list" where
  "processChatHistory [] = Inr []"
| "processChatHistory (m # ms) =
     (case compactMessage m of
        Inl e \<Rightarrow> Inl e
      | Inr m' \<Rightarrow>
          (case processChatHistory ms of
             Inl e \<Rightarrow> Inl e
           | Inr ms' \<Rightarrow> Inr (m' # ms')))"

section \<open>The message assembler (lines 251-306 of \<open>promptTutor\<close>)\<close>

text \<open>The loop over the files: a block that is not \<open>null\<close> is pushed.\<close>

fun pushFiles :: "env \<Rightarrow> upload option list \<Rightarrow> block list \<Rightarrow> block list" where
  "pushFiles E [] messageContent = messageContent"
| "pushFiles E (f # fs) messageContent =
     (case processFile E f of
        None \<Rightarrow> pushFiles E fs messageContent
      | Some processedFile \<Rightarrow> pushFiles E fs (messageContent @ [processedFile]))"

text \<open>The block of the new text: it has no \<open>noShow\<close>.\<close>

definition newTextBlock :: "string \<Rightarrow> block" where
  "newTextBlock t =
     \<lparr>btype = ''input_text'', btext = Some t, image_url = None, bnoShow = None\<rparr>"

definition messageContent :: "env \<Rightarrow> string option \<Rightarrow> upload option list \<Rightarrow> block list" where
  "messageContent E newMessage files =
     (let fromFiles = pushFiles E files []
      in case newMessage of
           None \<Rightarrow> fromFiles
         | Some t \<Rightarrow> if t \<noteq> [] then fromFiles @ [newTextBlock t] else fromFiles)"

definition userMessage :: "env \<Rightarrow> string option \<Rightarrow> upload option list \<Rightarrow> message" where
  "userMessage E newMessage files =
     \<lparr>role = Some ''user'', mtype = None,
      content = Arr (messageContent E newMessage files), noShow = None\<rparr>"

text \<open>
  \<open>lastUserText\<close>: \<open>None\<close> is its \<open>null\<close> (no last message, or not a user message);
  \<open>find(...)?.text || ""\<close> is the text of the first \<open>input_text\<close> block, or the empty
  string.
\<close>

definition lastUserText :: "message list \<Rightarrow> string option" where
  "lastUserText messages =
     (if messages = [] then None
      else let lastMessage = last messages in
        if role lastMessage = Some ''user'' then
          (case content lastMessage of
             Arr items \<Rightarrow>
               (case find (\<lambda>sub. btype sub = ''input_text'') items of
                  None \<Rightarrow> Some []
                | Some sub \<Rightarrow> (case btext sub of None \<Rightarrow> Some [] | Some t \<Rightarrow> Some t))
           | Str s \<Rightarrow> Some s
           | Undefined \<Rightarrow> Some [])
        else None)"

definition newMessageText :: "string option \<Rightarrow> string" where
  "newMessageText newMessage = (case newMessage of Some t \<Rightarrow> t | None \<Rightarrow> [])"

text \<open>The condition under which the new user message is not pushed.\<close>

definition alreadyPresent :: "message list \<Rightarrow> string option \<Rightarrow> bool" where
  "alreadyPresent messages newMessage =
     (case lastUserText messages of
        None \<Rightarrow> False
      | Some t \<Rightarrow>
          t \<noteq> [] \<and> newMessageText newMessage \<noteq> []
            \<and> trim t = trim (newMessageText newMessage))"

definition assemble ::
  "env \<Rightarrow> message list \<Rightarrow> string option \<Rightarrow> upload option list \<Rightarrow> message list" where
  "assemble E chatHistory newMessage files =
     (if alreadyPresent chatHistory newMessage then chatHistory
      else chatHistory @ [userMessage E newMessage files])"

section \<open>Image detection and the request (lines 309-363)\<close>

text \<open>
  The callback of \<open>files.some\<close>. \<open>isImageByContent\<close> is a constant of the body of
  \<open>processFile\<close>: at module level the name is not bound, and evaluating it raises a
  ReferenceError. Reading \<open>f.originalname\<close> of a \<open>null\<close> file raises a TypeError.
\<close>

definition fileIsImage :: "upload option \<Rightarrow> error + bool" where
  "fileIsImage file =
     (case file of
        None \<Rightarrow> Inl TypeError
      | Some f \<Rightarrow>
          if fileExtension f \<in> set imageExtensions then Inr True
          else Inl ReferenceError)"

text \<open>\<open>Array.prototype.some\<close> with a callback that may throw.\<close>

fun some :: "('a \<Rightarrow> error + bool) \<Rightarrow> 'a list \<Rightarrow> error + bool" where
  "some p [] = Inr False"
| "some p (x # xs) =
     (case p x of
        Inl e \<Rightarrow> Inl e
      | Inr b \<Rightarrow> if b then Inr True else some p xs)"

definition hasImages :: "upload option list \<Rightarrow> message list \<Rightarrow> error + bool" where
  "hasImages files messages =
     (case some fileIsImage files of
        Inl e \<Rightarrow> Inl e
      | Inr b \<Rightarrow> if b then Inr True else Inr (hasImagesInMessages messages))"

definition selectInstructions :: "env \<Rightarrow> string option \<Rightarrow> string" where
  "selectInstructions E cellType =
     (if cellType = Some ''grader'' then graderInstructions E
      else if cellType = Some ''free_response'' then freeResponseInstructions E
      else successInstructions E)"

text \<open>The \<open>input\<close> of the request: \<open>noShow\<close> is taken off a copy of each message and block.\<close>

definition stripNoShow :: "message \<Rightarrow> message" where
  "stripNoShow m =
     \<lparr>role = role m, mtype = mtype m,
      content =
        (case content m of
           Arr items \<Rightarrow> Arr (map (\<lambda>item. item\<lparr>bnoShow := None\<rparr>) items)
         | Str s \<Rightarrow> Str s
         | Undefined \<Rightarrow> Undefined),
      noShow = None\<rparr>"

record request =
  model :: string
  input :: "message list"
  instructions :: string
  stream :: bool

text \<open>
  Everything \<open>promptTutor\<close> does before it calls the provider: the messages it keeps and
  the request it sends, or the exception raised on the way.
\<close>

definition buildRequest ::
  "env \<Rightarrow> message list \<Rightarrow> string option \<Rightarrow> upload option list \<Rightarrow> string option \<Rightarrow> bool
     \<Rightarrow> error + (message list \<times> request)" where
  "buildRequest E chatHistory newMessage files cellType strm =
     (let messages = assemble E chatHistory newMessage files
      in case hasImages files messages of
           Inl e \<Rightarrow> Inl e
         | Inr b \<Rightarrow>
             Inr (messages,
                  \<lparr>model = ''gpt-5-mini'', input = map stripNoShow messages,
                   instructions = selectInstructions E cellType, stream = strm\<rparr>))"

section \<open>The streaming loop (lines 367-417) and \<open>promptTutor\<close>\<close>

text \<open>
  The events of the provider, by their \<open>type\<close>; a text delta carries \<open>delta\<close>, which may
  be missing. Any other type is \<open>OtherEvent\<close>.
\<close>

datatype event =
  OutputTextDelta "string option"
| OutputTextDone
| ReasoningDelta
| ReasoningDone
| ResponseDone
| OtherEvent string

record streamState =
  fullOutput :: "message list"
  currentMessage :: string
  currentReasoning :: string

definition initialState :: streamState where
  "initialState = \<lparr>fullOutput = [], currentMessage = [], currentReasoning = []\<rparr>"

definition assistantMessage :: "string \<Rightarrow> message" where
  "assistantMessage t =
     \<lparr>role = Some ''assistant'', mtype = Some ''message'', content = Str t, noShow = None\<rparr>"

definition reasoningMessage :: "string \<Rightarrow> message" where
  "reasoningMessage t =
     \<lparr>role = None, mtype = Some ''reasoning'', content = Str t, noShow = None\<rparr>"

text \<open>
  \<open>for await (const event of response)\<close>: \<open>response.done\<close> breaks out of the loop. The
  frames written to \<open>res\<close> on the way are left out: no variable of the loop depends on
  them.
\<close>

fun streamLoop :: "event list \<Rightarrow> streamState \<Rightarrow> streamState" where
  "streamLoop [] st = st"
| "streamLoop (OutputTextDelta d # evs) st =
     streamLoop evs
       (st\<lparr>currentMessage := currentMessage st @ (case d of Some t \<Rightarrow> t | None \<Rightarrow> [])\<rparr>)"
| "streamLoop (OutputTextDone # evs) st =
     streamLoop evs
       (if currentMessage st \<noteq> []
        then st\<lparr>fullOutput := fullOutput st @ [assistantMessage (currentMessage st)]\<rparr>
        else st)"
| "streamLoop (ReasoningDelta # evs) st = streamLoop evs st"
| "streamLoop (ReasoningDone # evs) st =
     streamLoop evs
       (if currentReasoning st \<noteq> []
        then st\<lparr>fullOutput := fullOutput st @ [reasoningMessage (currentReasoning st)]\<rparr>
        else st)"
| "streamLoop (ResponseDone # evs) st = st"
| "streamLoop (OtherEvent t # evs) st = streamLoop evs st"

text \<open>
  What \<open>client.responses.create\<close> gives back: the output items, or the event sequence
  of a stream. The provider is a parameter of the model; it may throw.
\<close>

datatype response = Output "message list" | Events "event list"

type_synonym provider = "request \<Rightarrow> error + response"

record finalResponse =
  response :: "message list"
  newChatHistory :: "message list"
  promptSuggestions :: "string list"

definition finish :: "message list \<Rightarrow> message list \<Rightarrow> error + finalResponse" where
  "finish messages out =
     (case processChatHistory (messages @ out) of
        Inl e \<Rightarrow> Inl e
      | Inr h \<Rightarrow> Inr \<lparr>response = out, newChatHistory = h, promptSuggestions = []\<rparr>)"

text \<open>
  \<open>promptTutor\<close>; \<open>res\<close> says whether a response object was passed. Iterating over a
  response that is no event sequence, and spreading the missing \<open>output\<close> of an event
  sequence, raise a TypeError. The \<open>catch\<close> block rethrows what it caught.
\<close>

definition promptTutor ::
  "env \<Rightarrow> provider \<Rightarrow> message list \<Rightarrow> string option \<Rightarrow> upload option list
     \<Rightarrow> string option \<Rightarrow> bool \<Rightarrow> bool \<Rightarrow> error + finalResponse" where
  "promptTutor E client chatHistory newMessage files cellType res strm =
     (case buildRequest E chatHistory newMessage files cellType strm of
        Inl e \<Rightarrow> Inl e
      | Inr (messages, req) \<Rightarrow>
          (case client req of
             Inl e \<Rightarrow> Inl e
           | Inr (Events evs) \<Rightarrow>
               if strm \<and> res
               then finish messages (fullOutput (streamLoop evs initialState))
               else Inl TypeError
           | Inr (Output out) \<Rightarrow>
               if strm \<and> res then Inl TypeError else finish messages out))"

section \<open>The duplicate-submit guard in the words of the specification\<close>

text \<open>
  The text of a stored turn: the text of its first \<open>input_text\<close> block when the content is
  a block sequence, the content itself when it is a plain string, empty otherwise.
\<close>

definition storedText :: "message \<Rightarrow> string" where
  "storedText m =
     (case content m of
        Arr items \<Rightarrow>
          (case find (\<lambda>b. btype b = ''input_text'') items of
             Some b \<Rightarrow> (case btext b of Some t \<Rightarrow> t | None \<Rightarrow> [])
           | None \<Rightarrow> [])
      | Str s \<Rightarrow> s
      | Undefined \<Rightarrow> [])"

text \<open>
  The last message of the history is a user message, its text and the new text are both
  non-empty, and they are equal once trimmed.
\<close>

definition duplicateSubmit :: "message list \<Rightarrow> string option \<Rightarrow> bool" where
  "duplicateSubmit history newMessage =
     (case newMessage of
        None \<Rightarrow> False
      | Some t \<Rightarrow>
          history \<noteq> [] \<and> role (last history) = Some ''user''
            \<and> storedText (last history) \<noteq> [] \<and> t \<noteq> []
            \<and> trim (storedText (last history)) = trim t)"

section \<open>Sample inputs\<close>

text \<open>An environment that decodes a buffer byte by byte, exact on ASCII buffers.\<close>

definition sampleEnv :: env where
  "sampleEnv =
     \<lparr>toUtf8 = map (\<lambda>b. char_of (unat b)), graderInstructions = ''grade'',
      freeResponseInstructions = ''free'', successInstructions = ''success''\<rparr>"

text \<open>A provider that answers every request with one assistant message.\<close>

definition sampleProvider :: provider where
  "sampleProvider req = Inr (Output [assistantMessage ''ok''])"

definition aPng :: upload where
  "aPng = \<lparr>originalname = Some ''a.png'', name = None, buffer = [0x89, 0x50, 0x4e, 0x47]\<rparr>"

definition bCsv :: upload where
  "bCsv = \<lparr>originalname = Some ''b.csv'', name = None, buffer = [0x78, 0x2c, 0x79]\<rparr>"

text \<open>A file without extension that starts with the four bytes of a PNG image.\<close>

definition photo :: upload where
  "photo = \<lparr>originalname = Some ''photo'', name = None, buffer = [0x89, 0x50, 0x4e, 0x47]\<rparr>"

text \<open>A file named \<open>x.exe\<close> that starts with the two bytes of a bitmap.\<close>

definition xExe :: upload where
  "xExe = \<lparr>originalname = Some ''x.exe'', name = None, buffer = [0x42, 0x4d, 0, 0]\<rparr>"

text \<open>A file named \<open>setup.exe\<close> that starts as executables do.\<close>

definition setupExe :: upload where
  "setupExe =
     \<lparr>originalname = Some ''setup.exe'', name = None, buffer = [0x4d, 0x5a, 0x90, 0]\<rparr>"

definition pngBlock :: block where
  "pngBlock =
     \<lparr>btype = ''input_image'', btext = None,
      image_url = Some ''data:image/png;base64,iVBORw=='', bnoShow = Some True\<rparr>"

text \<open>A stored user turn with plain string content.\<close>

definition whatIs :: message where
  "whatIs =
     \<lparr>role = Some ''user'', mtype = None, content = Str ''What is 2+2?'', noShow = None\<rparr>"

text \<open>A stored user turn that holds one classified image and nothing else.\<close>

definition imageTurn :: message where
  "imageTurn = \<lparr>role = Some ''user'', mtype = None, content = Arr [pngBlock], noShow = None\<rparr>"

text \<open>The same turn, marked with \<open>noShow\<close>.\<close>

definition hiddenTurn :: message where
  "hiddenTurn =
     \<lparr>role = Some ''user'', mtype = None, content = Arr [pngBlock], noShow = Some True\<rparr>"

text \<open>A user turn with an image and a question.\<close>

definition questionTurn :: message where
  "questionTurn =
     \<lparr>role = Some ''user'', mtype = None,
      content = Arr [pngBlock,
                    \<lparr>btype = ''input_text'', btext = Some ''What is this?'',
                     image_url = None, bnoShow = None\<rparr>],
      noShow = None\<rparr>"

text \<open>A user turn with an image and an empty text block.\<close>

definition blankTextTurn :: message where
  "blankTextTurn =
     \<lparr>role = Some ''user'', mtype = None,
      content = Arr [pngBlock,
                    \<lparr>btype = ''input_text'', btext = Some [], image_url = None,
                     bnoShow = None\<rparr>],
      noShow = None\<rparr>"

text \<open>A user turn whose first block is neither an image nor a text.\<close>

definition fileFirstTurn :: message where
  "fileFirstTurn =
     \<lparr>role = Some ''user'', mtype = None,
      content = Arr [\<lparr>btype = ''input_file'', btext = None, image_url = None,
                     bnoShow = None\<rparr>,
                    \<lparr>btype = ''input_text'', btext = Some ''hi'', image_url = None,
                     bnoShow = None\<rparr>],
      noShow = None\<rparr>"

text \<open>A reasoning item that carries a text block.\<close>

definition reasoningTurn :: message where
  "reasoningTurn =
     \<lparr>role = None, mtype = Some ''reasoning'',
      content = Arr [\<lparr>btype = ''input_text'', btext = Some ''plan'', image_url = None,
                     bnoShow = None\<rparr>],
      noShow = None\<rparr>"

text \<open>
  What the request holds and what \<open>promptTutor\<close> returns for the history \<open>hiddenTurn\<close>, the
  new text \<open>hi\<close> and the file \<open>a.png\<close>, with \<open>sampleProvider\<close>.
\<close>

definition sentInput :: "message list" where
  "sentInput =
     [\<lparr>role = Some ''user'', mtype = None,
       content = Arr [\<lparr>btype = ''input_image'', btext = None,
                      image_url = Some ''data:image/png;base64,iVBORw=='', bnoShow = None\<rparr>],
       noShow = None\<rparr>,
      \<lparr>role = Some ''user'', mtype = None,
       content = Arr [\<lparr>btype = ''input_image'', btext = None,
                      image_url = Some ''data:image/png;base64,iVBORw=='', bnoShow = None\<rparr>,
                     \<lparr>btype = ''input_text'', btext = Some ''hi'', image_url = None,
                      bnoShow = None\<rparr>],
       noShow = None\<rparr>]"

definition tutorAnswer :: finalResponse where
  "tutorAnswer =
     \<lparr>response = [assistantMessage ''ok''],
      newChatHistory =
        [hiddenTurn,
         \<lparr>role = Some ''user'', mtype = None, content = Str ''hi'', noShow = None\<rparr>,
         assistantMessage ''ok''],
      promptSuggestions = []\<rparr>"

text \<open>A reasoning item as the provider returns it: no content and no \<open>noShow\<close>.\<close>

definition reasoningItem :: message where
  "reasoningItem =
     \<lparr>role = None, mtype = Some ''reasoning'', content = Undefined, noShow = None\<rparr>"

definition sampleHistory :: "message list" where
  "sampleHistory =
     [questionTurn,
      \<lparr>role = None, mtype = Some ''reasoning'', content = Undefined, noShow = None\<rparr>,
      \<lparr>role = Some ''assistant'', mtype = Some ''message'', content = Str ''A plot.'',
       noShow = None\<rparr>]"

definition compactedHistory :: "message list" where
  "compactedHistory =
     [\<lparr>role = Some ''user'', mtype = None, content = Str ''What is this?'', noShow = None\<rparr>,
      \<lparr>role = None, mtype = Some ''reasoning'', content = Undefined, noShow = Some True\<rparr>,
      \<lparr>role = Some ''assistant'', mtype = Some ''message'', content = Str ''A plot.'',
       noShow = None\<rparr>]"

section \<open>The samples, evaluated\<close>

lemma fileExtension_aPng: "fileExtension aPng = ''.png''"
  by code_simp

lemma fileExtension_bCsv: "fileExtension bCsv = ''.csv''"
  by code_simp

lemma fileExtension_photo: "fileExtension photo = []"
  by code_simp

lemma fileExtension_xExe: "fileExtension xExe = ''.exe''"
  by code_simp

lemma fileExtension_setupExe: "fileExtension setupExe = ''.exe''"
  by code_simp

lemma shownName_samples:
  "shownName bCsv = ''b.csv''" "shownName setupExe = ''setup.exe''"
  by (simp_all add: shownName_def fileName_def bCsv_def setupExe_def)

lemma base64_samples:
  "base64 (buffer aPng) = ''iVBORw==''" "base64 (buffer photo) = ''iVBORw==''"
  "base64 (buffer xExe) = ''Qk0AAA==''"
  by (simp_all add: aPng_def photo_def xExe_def sextet_def base64Alphabet_def)

lemma isImageByContent_samples:
  "isImageByContent (buffer photo) = Some ''image/png''"
  "isImageByContent (buffer xExe) = Some ''image/bmp''"
  "isImageByContent (buffer setupExe) = None"
  "isImageByContent (buffer bCsv) = None"
  by (simp_all add: photo_def xExe_def setupExe_def bCsv_def isImageByContent_def)

lemma toUtf8_bCsv: "toUtf8 sampleEnv (buffer bCsv) = ''x,y''"
  by (simp add: sampleEnv_def bCsv_def char_of_def bit_Suc_0_iff)

lemma processFile_aPng: "processFile sampleEnv (Some aPng) = Some pngBlock"
  by (simp add: processFile_def fileExtension_aPng imageExtensions_def imageBlock_def
      base64_samples pngBlock_def)

lemma processFile_photo: "processFile sampleEnv (Some photo) = Some pngBlock"
  by (simp add: processFile_def fileExtension_photo imageExtensions_def imageBlock_def
      isImageByContent_samples base64_samples pngBlock_def)

lemma processFile_bCsv:
  "processFile sampleEnv (Some bCsv) =
     Some \<lparr>btype = ''input_text'',
           btext = Some ''CSV Data File (b.csv):\<newline>\<newline>x,y'',
           image_url = None, bnoShow = Some True\<rparr>"
  by (simp add: processFile_def fileExtension_bCsv imageExtensions_def textBlock_def
      fileText_def isImageByContent_samples shownName_samples toUtf8_bCsv)

lemma compactMessage_assistantMessage:
  "compactMessage (assistantMessage t) = Inr (assistantMessage t)"
  by (simp add: compactMessage_def assistantMessage_def)

lemma processChatHistory_sampleHistory:
  "processChatHistory sampleHistory = Inr compactedHistory"
  by (simp add: sampleHistory_def compactedHistory_def questionTurn_def pngBlock_def
      compactMessage_def)

section \<open>Properties of the classifier and the assembler\<close>

lemma processFile_not_None: "processFile E (Some f) \<noteq> None"
  by (simp add: processFile_def split: option.splits)

lemma processFile_noShow: "processFile E f = Some b \<Longrightarrow> bnoShow b = Some True"
  by (auto simp: processFile_def imageBlock_def textBlock_def split: option.splits if_splits)

lemma pushFiles_map_filter:
  "pushFiles E fs acc = acc @ List.map_filter (processFile E) fs"
  by (induction fs arbitrary: acc) (auto split: option.splits)

lemma alreadyPresent_duplicateSubmit:
  "alreadyPresent history newMessage = duplicateSubmit history newMessage"
  by (auto simp: alreadyPresent_def duplicateSubmit_def lastUserText_def storedText_def
      newMessageText_def Let_def split: option.splits content.splits if_splits)

lemma assemble_prefix:
  "length chatHistory \<le> length (assemble E chatHistory newMessage files)
   \<and> take (length chatHistory) (assemble E chatHistory newMessage files) = chatHistory"
  by (simp add: assemble_def)

lemma hasImages_first_file:
  "fileExtension f \<notin> set imageExtensions \<Longrightarrow>
     hasImages (Some f # fs) messages = Inl ReferenceError"
  by (simp add: hasImages_def fileIsImage_def)

section \<open>C1: the streaming loop\<close>

text \<open>No event shortens the buffer \<open>currentMessage\<close>.\<close>

lemma currentMessage_kept:
  "\<exists>more. currentMessage (streamLoop evs st) = currentMessage st @ more"
proof (induction evs st rule: streamLoop.induct)
  case (2 d evs st)
  then obtain more where
    "currentMessage (streamLoop (OutputTextDelta d # evs) st) =
       (currentMessage st @ (case d of Some t \<Rightarrow> t | None \<Rightarrow> [])) @ more"
    by auto
  then show ?case by (metis append_assoc)
qed auto

text \<open>
  C1 says that each \<open>text.done\<close> materializes the delta text received since the previous
  \<open>text.done\<close>, the buffer being cleared in between. The loop never resets
  \<open>currentMessage\<close>: on the events delta A, done, delta B, done, \<open>response.done\<close> the
  accumulated output is the two assistant messages A and AB, not A and B.
\<close>

theorem C1_buffer_not_cleared:
  "fullOutput (streamLoop [OutputTextDelta (Some ''A''), OutputTextDone,
       OutputTextDelta (Some ''B''), OutputTextDone, ResponseDone] initialState) =
     [\<lparr>role = Some ''assistant'', mtype = Some ''message'', content = Str ''A'', noShow = None\<rparr>,
      \<lparr>role = Some ''assistant'', mtype = Some ''message'', content = Str ''AB'',
        noShow = None\<rparr>]"
  by (simp add: initialState_def assistantMessage_def)

section \<open>C2: image detection\<close>

text \<open>
  C2 says that \<open>hasImages\<close> is true exactly when some message holds an image block or some
  new file is an image by extension or by its leading bytes. \<open>hasImagesInMessages\<close> looks
  for the type \<open>image_url\<close>, while the classifier and the compactor use \<open>input_image\<close>:
  a stored turn that holds the block classified from \<open>a.png\<close> is not detected. A new file
  that is an image by its leading bytes only makes the expression raise a ReferenceError
  instead of giving \<open>true\<close>.
\<close>

theorem C2_input_image_not_detected:
  "content imageTurn = Arr [the (processFile sampleEnv (Some aPng))]
   \<and> hasImagesInMessages [imageTurn] = False
   \<and> hasImages [] (assemble sampleEnv [imageTurn] (Some ''hi'') []) = Inr False
   \<and> processFile sampleEnv (Some photo) = Some pngBlock
   \<and> hasImages [Some photo] (assemble sampleEnv [] (Some ''hi'') [Some photo]) =
       Inl ReferenceError"
proof -
  have "hasImages [] (assemble sampleEnv [imageTurn] (Some ''hi'') []) = Inr False"
    by (simp add: hasImages_def hasImagesInMessages_def assemble_def imageTurn_def
        pngBlock_def userMessage_def messageContent_def newTextBlock_def)
  moreover have "hasImages [Some photo] (assemble sampleEnv [] (Some ''hi'') [Some photo]) =
       Inl ReferenceError"
    by (simp add: hasImages_first_file fileExtension_photo imageExtensions_def)
  ultimately show ?thesis
    by (simp add: imageTurn_def processFile_aPng processFile_photo hasImagesInMessages_def
        pngBlock_def)
qed

section \<open>C3: the reference to \<open>isImageByContent\<close> outside its scope\<close>

text \<open>
  C3, as amended: for every call to \<open>promptTutor\<close> whose file list begins with a file
  whose extension is outside jpg, jpeg, png, gif, bmp, webp, the image-detection
  expression evaluates \<open>isImageByContent\<close> outside the body of \<open>processFile\<close> and raises a
  ReferenceError: the call fails with that error whatever the provider is (it is never
  called), although the classification of the file gave a block.
\<close>

theorem C3_reference_error:
  assumes "files = Some f # fs" and "fileExtension f \<notin> set imageExtensions"
  shows "(\<exists>b. processFile E (Some f) = Some b)
         \<and> buildRequest E chatHistory newMessage files cellType strm = Inl ReferenceError
         \<and> promptTutor E client chatHistory newMessage files cellType res strm =
             Inl ReferenceError"
proof -
  have "hasImages files (assemble E chatHistory newMessage files) = Inl ReferenceError"
    using assms by (simp add: hasImages_first_file)
  then have b: "buildRequest E chatHistory newMessage files cellType strm = Inl ReferenceError"
    by (simp add: buildRequest_def)
  then have "promptTutor E client chatHistory newMessage files cellType res strm =
      Inl ReferenceError"
    by (simp add: promptTutor_def)
  moreover have "\<exists>b. processFile E (Some f) = Some b"
    using processFile_not_None [of E f] by (cases "processFile E (Some f)") auto
  ultimately show ?thesis using b by simp
qed

text \<open>C3, witness: the files \<open>b.csv\<close>, \<open>a.png\<close> in this order.\<close>

theorem C3_reference_error_witness:
  "promptTutor sampleEnv sampleProvider [] (Some ''hi'') [Some bCsv, Some aPng] None True False =
     Inl ReferenceError"
proof -
  have "fileExtension bCsv \<notin> set imageExtensions"
    by (simp add: fileExtension_bCsv imageExtensions_def)
  from C3_reference_error [OF refl this] show ?thesis by simp
qed

text \<open>
  C3 as stated fails: the file list \<open>a.png\<close>, \<open>b.csv\<close> contains a file with an extension
  outside the image set, but \<open>files.some\<close> stops at \<open>a.png\<close>; nothing is raised, the
  provider is called and the turn succeeds.
\<close>

theorem C3_counterexample:
  "fileExtension bCsv \<notin> set imageExtensions
   \<and> hasImages [Some aPng, Some bCsv]
        (assemble sampleEnv [] (Some ''hi'') [Some aPng, Some bCsv]) = Inr True
   \<and> promptTutor sampleEnv sampleProvider [] (Some ''hi'') [Some aPng, Some bCsv] None
        False False =
       Inr \<lparr>response = [assistantMessage ''ok''],
            newChatHistory =
              [\<lparr>role = Some ''user'', mtype = None,
                content = Str ''CSV Data File (b.csv):\<newline>\<newline>x,y'', noShow = None\<rparr>,
               assistantMessage ''ok''],
            promptSuggestions = []\<rparr>"
proof -
  have h: "hasImages [Some aPng, Some bCsv]
        (assemble sampleEnv [] (Some ''hi'') [Some aPng, Some bCsv]) = Inr True"
    by (simp add: hasImages_def fileIsImage_def fileExtension_aPng imageExtensions_def)
  have a: "assemble sampleEnv [] (Some ''hi'') [Some aPng, Some bCsv] =
      [userMessage sampleEnv (Some ''hi'') [Some aPng, Some bCsv]]"
    by (simp add: assemble_def alreadyPresent_def lastUserText_def)
  have c: "compactMessage (userMessage sampleEnv (Some ''hi'') [Some aPng, Some bCsv]) =
      Inr \<lparr>role = Some ''user'', mtype = None,
           content = Str ''CSV Data File (b.csv):\<newline>\<newline>x,y'', noShow = None\<rparr>"
    by (simp add: compactMessage_def userMessage_def messageContent_def processFile_aPng
        processFile_bCsv pngBlock_def)
  have "promptTutor sampleEnv sampleProvider [] (Some ''hi'') [Some aPng, Some bCsv] None
        False False =
       Inr \<lparr>response = [assistantMessage ''ok''],
            newChatHistory =
              [\<lparr>role = Some ''user'', mtype = None,
                content = Str ''CSV Data File (b.csv):\<newline>\<newline>x,y'', noShow = None\<rparr>,
               assistantMessage ''ok''],
            promptSuggestions = []\<rparr>"
    using h by (simp add: promptTutor_def buildRequest_def Let_def sampleProvider_def
        finish_def a c compactMessage_assistantMessage)
  then show ?thesis using h by (simp add: fileExtension_bCsv imageExtensions_def)
qed

section \<open>C4: the duplicate-submit guard\<close>

text \<open>
  C4, as amended: when the last message of the history is a user message whose text (the
  text of its first \<open>input_text\<close> block, or the content itself when that is a plain
  string) and the new text are both non-empty and equal once trimmed, assembling the
  turn gives the history itself; in every other case the candidate user message is
  appended.
\<close>

theorem C4_duplicate_guard:
  "assemble E history newMessage files =
     (if duplicateSubmit history newMessage then history
      else history @ [userMessage E newMessage files])"
  by (simp add: assemble_def alreadyPresent_duplicateSubmit)

text \<open>C4, witness: a resubmitted question with a file, and a new question.\<close>

theorem C4_duplicate_guard_witness:
  "assemble sampleEnv [whatIs] (Some ''  What is 2+2? '') [Some aPng] = [whatIs]
   \<and> assemble sampleEnv [whatIs] (Some ''What is 3+3?'') [] =
       [whatIs, userMessage sampleEnv (Some ''What is 3+3?'') []]"
  by (simp add: C4_duplicate_guard duplicateSubmit_def storedText_def whatIs_def trim_def
      isWhiteSpace_def)

text \<open>
  C4 as stated fails: the stored turn \<open>whatIs\<close> has a plain string as content and so no
  text block at all, which is one of the "other" cases of the claim; the candidate
  message is not appended all the same.
\<close>

theorem C4_counterexample:
  "content whatIs = Str ''What is 2+2?''
   \<and> assemble sampleEnv [whatIs] (Some ''What is 2+2?'') [] = [whatIs]"
  by (simp add: assemble_def alreadyPresent_def lastUserText_def newMessageText_def
      whatIs_def trim_def isWhiteSpace_def)

section \<open>C5 and C6: the transcript compactor\<close>

lemma find_filter:
  "find P xs = (case filter P xs of [] \<Rightarrow> None | x # rest \<Rightarrow> Some x)"
  by (induction xs) auto

lemma compactMessage_idem: "compactMessage m = Inr m' \<Longrightarrow> compactMessage m' = Inr m'"
  by (auto simp: compactMessage_def split: if_splits content.splits list.splits option.splits)

lemma processChatHistory_idem:
  "processChatHistory c = Inr c' \<Longrightarrow> processChatHistory c' = Inr c'"
proof (induction c arbitrary: c')
  case Nil
  then show ?case by simp
next
  case (Cons m ms)
  then obtain m' ms' where m: "compactMessage m = Inr m'"
    and ms: "processChatHistory ms = Inr ms'" and c': "c' = m' # ms'"
    by (auto split: sum.splits)
  from Cons.IH [OF ms] compactMessage_idem [OF m] show ?case
    by (simp add: c')
qed

lemma processChatHistory_nth:
  "processChatHistory ms = Inr ms' \<Longrightarrow>
     length ms' = length ms \<and> (\<forall>i < length ms. compactMessage (ms ! i) = Inr (ms' ! i))"
proof (induction ms arbitrary: ms')
  case Nil
  then show ?case by simp
next
  case (Cons m ms)
  then obtain m' ms1 where m: "compactMessage m = Inr m'"
    and ms: "processChatHistory ms = Inr ms1" and eq: "ms' = m' # ms1"
    by (auto split: sum.splits)
  from Cons.IH [OF ms] m show ?case
    by (auto simp: eq nth_Cons split: nat.splits)
qed

lemma compactMessage_noShow:
  "compactMessage m = Inr m' \<Longrightarrow>
     noShow m' = (if mtype m = Some ''reasoning'' then Some True else noShow m)"
  by (auto simp: compactMessage_def split: if_splits content.splits list.splits option.splits)

lemma compactMessage_Arr:
  "compactMessage m = Inr m' \<Longrightarrow> content m' = Arr items \<Longrightarrow> content m = Arr items"
  by (auto simp: compactMessage_def split: if_splits content.splits list.splits option.splits)

text \<open>
  C5, as amended: for every message that is not a reasoning item, a plain string content
  is left untouched; a block sequence is rewritten to the single string that is the text
  of its first block other than an \<open>input_image\<close>, when that block exists and its text is
  a non-empty string (all other blocks are discarded), and is kept unchanged otherwise
  (no such block, or its text is missing or empty). A reasoning item only gets
  \<open>noShow\<close>. Where every block is an \<open>input_text\<close> or an \<open>input_image\<close>, the first block
  other than an image is the first text block.
\<close>

theorem C5_compaction_rule:
  "(mtype m \<noteq> Some ''reasoning'' \<and> content m = Str s \<longrightarrow> compactMessage m = Inr m)
   \<and> (mtype m \<noteq> Some ''reasoning'' \<and> content m = Arr items
        \<and> find (\<lambda>b. btype b \<noteq> ''input_image'') items = Some b \<and> btext b = Some t
        \<and> t \<noteq> []
        \<longrightarrow> compactMessage m = Inr (m\<lparr>content := Str t\<rparr>))
   \<and> (mtype m \<noteq> Some ''reasoning'' \<and> content m = Arr items
        \<and> (find (\<lambda>b. btype b \<noteq> ''input_image'') items = None
           \<or> find (\<lambda>b. btype b \<noteq> ''input_image'') items = Some b
              \<and> (btext b = None \<or> btext b = Some []))
        \<longrightarrow> compactMessage m = Inr m)
   \<and> (mtype m = Some ''reasoning'' \<longrightarrow> compactMessage m = Inr (m\<lparr>noShow := Some True\<rparr>))
   \<and> ((\<forall>x \<in> set items. btype x = ''input_text'' \<or> btype x = ''input_image'')
        \<longrightarrow> find (\<lambda>b. btype b \<noteq> ''input_image'') items
            = find (\<lambda>b. btype b = ''input_text'') items)"
proof (intro conjI impI)
  assume "mtype m \<noteq> Some ''reasoning'' \<and> content m = Str s"
  then show "compactMessage m = Inr m" by (auto simp: compactMessage_def)
next
  assume "mtype m \<noteq> Some ''reasoning'' \<and> content m = Arr items
        \<and> find (\<lambda>b. btype b \<noteq> ''input_image'') items = Some b \<and> btext b = Some t
        \<and> t \<noteq> []"
  then show "compactMessage m = Inr (m\<lparr>content := Str t\<rparr>)"
    by (auto simp: compactMessage_def find_filter split: list.splits)
next
  assume "mtype m \<noteq> Some ''reasoning'' \<and> content m = Arr items
        \<and> (find (\<lambda>b. btype b \<noteq> ''input_image'') items = None
           \<or> find (\<lambda>b. btype b \<noteq> ''input_image'') items = Some b
              \<and> (btext b = None \<or> btext b = Some []))"
  then show "compactMessage m = Inr m"
    by (auto simp: compactMessage_def find_filter split: list.splits)
next
  assume "mtype m = Some ''reasoning''"
  then show "compactMessage m = Inr (m\<lparr>noShow := Some True\<rparr>)"
    by (simp add: compactMessage_def)
next
  assume "\<forall>x \<in> set items. btype x = ''input_text'' \<or> btype x = ''input_image''"
  then show "find (\<lambda>b. btype b \<noteq> ''input_image'') items
            = find (\<lambda>b. btype b = ''input_text'') items"
    by (induction items) auto
qed

text \<open>
  C5, witness: a string turn, a turn with an image and a question, a turn with an image
  only, a turn with an image and an empty text, and a reasoning item.
\<close>

theorem C5_compaction_rule_witness:
  "compactMessage whatIs = Inr whatIs
   \<and> compactMessage questionTurn =
       Inr \<lparr>role = Some ''user'', mtype = None, content = Str ''What is this?'',
            noShow = None\<rparr>
   \<and> compactMessage imageTurn = Inr imageTurn
   \<and> compactMessage blankTextTurn = Inr blankTextTurn
   \<and> compactMessage reasoningTurn = Inr (reasoningTurn\<lparr>noShow := Some True\<rparr>)
   \<and> find (\<lambda>b. btype b \<noteq> ''input_image'') [pngBlock, newTextBlock ''What is this?''] =
       Some (newTextBlock ''What is this?'')
   \<and> find (\<lambda>b. btype b = ''input_text'') [pngBlock, newTextBlock ''What is this?''] =
       Some (newTextBlock ''What is this?'')"
proof -
  have "compactMessage whatIs = Inr whatIs"
    using C5_compaction_rule [of whatIs "''What is 2+2?''"] by (simp add: whatIs_def)
  moreover have "compactMessage questionTurn =
       Inr \<lparr>role = Some ''user'', mtype = None, content = Str ''What is this?'',
            noShow = None\<rparr>"
    using C5_compaction_rule [of questionTurn _
        "[pngBlock, newTextBlock ''What is this?'']" "newTextBlock ''What is this?''"
        "''What is this?''"]
    by (simp add: questionTurn_def pngBlock_def newTextBlock_def)
  moreover have "compactMessage imageTurn = Inr imageTurn"
    using C5_compaction_rule [of imageTurn _ "[pngBlock]"]
    by (simp add: imageTurn_def pngBlock_def)
  moreover have "compactMessage blankTextTurn = Inr blankTextTurn"
    using C5_compaction_rule [of blankTextTurn _ "[pngBlock, newTextBlock []]"
        "newTextBlock []"]
    by (simp add: blankTextTurn_def pngBlock_def newTextBlock_def)
  moreover have "compactMessage reasoningTurn = Inr (reasoningTurn\<lparr>noShow := Some True\<rparr>)"
    using C5_compaction_rule [of reasoningTurn] by (simp add: reasoningTurn_def)
  moreover have
    "find (\<lambda>b. btype b \<noteq> ''input_image'') [pngBlock, newTextBlock ''What is this?''] =
       find (\<lambda>b. btype b = ''input_text'') [pngBlock, newTextBlock ''What is this?'']"
    using C5_compaction_rule [of _ _ "[pngBlock, newTextBlock ''What is this?'']"]
    by (simp add: pngBlock_def newTextBlock_def)
  moreover have
    "find (\<lambda>b. btype b = ''input_text'') [pngBlock, newTextBlock ''What is this?''] =
       Some (newTextBlock ''What is this?'')"
    by (simp add: pngBlock_def newTextBlock_def)
  ultimately show ?thesis by simp
qed

text \<open>
  C5 as stated fails in three ways. A turn with an image and an empty text block has a
  text block, but its content is kept as it is, image included. A turn whose first block
  is an \<open>input_file\<close> has a text block after it, but its content is kept as it is. A
  reasoning item with a text block keeps its block sequence.
\<close>

theorem C5_counterexample:
  "compactMessage blankTextTurn = Inr blankTextTurn
   \<and> content blankTextTurn =
       Arr [pngBlock,
            \<lparr>btype = ''input_text'', btext = Some [], image_url = None, bnoShow = None\<rparr>]
   \<and> compactMessage fileFirstTurn = Inr fileFirstTurn
   \<and> content fileFirstTurn =
       Arr [\<lparr>btype = ''input_file'', btext = None, image_url = None, bnoShow = None\<rparr>,
            \<lparr>btype = ''input_text'', btext = Some ''hi'', image_url = None,
             bnoShow = None\<rparr>]
   \<and> compactMessage reasoningTurn =
       Inr \<lparr>role = None, mtype = Some ''reasoning'',
            content = Arr [\<lparr>btype = ''input_text'', btext = Some ''plan'', image_url = None,
                           bnoShow = None\<rparr>],
            noShow = Some True\<rparr>"
  by (simp add: compactMessage_def blankTextTurn_def fileFirstTurn_def reasoningTurn_def
      pngBlock_def)

text \<open>
  C6: compacting a compacted conversation changes nothing. When the first compaction
  returns \<open>c'\<close>, compacting \<open>c'\<close> returns \<open>c'\<close>; when it raises, so does the composition.
\<close>

theorem C6_compaction_idempotent:
  "(processChatHistory c = Inr c' \<longrightarrow> processChatHistory c' = Inr c')
   \<and> (case processChatHistory c of Inl e \<Rightarrow> Inl e | Inr d \<Rightarrow> processChatHistory d) =
       processChatHistory c"
  by (auto dest: processChatHistory_idem split: sum.splits)

text \<open>C6, witness: a conversation with an image turn, a reasoning item and an answer.\<close>

theorem C6_compaction_idempotent_witness:
  "processChatHistory sampleHistory = Inr compactedHistory
   \<and> processChatHistory compactedHistory = Inr compactedHistory"
  using C6_compaction_idempotent [of sampleHistory compactedHistory]
  by (simp add: processChatHistory_sampleHistory)

section \<open>C7: the candidate user message\<close>

text \<open>
  C7: for a non-empty new text, the content of the candidate user message is the blocks
  of the files that classification returned, in the order of the files, followed by one
  \<open>input_text\<close> block that carries the new text and no \<open>noShow\<close>; every block of a file
  has \<open>noShow\<close> set.
\<close>

theorem C7_userMessage_content:
  assumes "t \<noteq> []"
  shows "content (userMessage E (Some t) files) =
           Arr (List.map_filter (processFile E) files @ [newTextBlock t])
         \<and> btype (newTextBlock t) = ''input_text'' \<and> btext (newTextBlock t) = Some t
         \<and> bnoShow (newTextBlock t) = None
         \<and> (\<forall>b \<in> set (List.map_filter (processFile E) files). bnoShow b = Some True)"
proof -
  have "content (userMessage E (Some t) files) =
          Arr (List.map_filter (processFile E) files @ [newTextBlock t])"
    using assms by (simp add: userMessage_def messageContent_def pushFiles_map_filter)
  moreover have "\<forall>b \<in> set (List.map_filter (processFile E) files). bnoShow b = Some True"
    by (auto simp: List.map_filter_def dest: processFile_noShow)
  ultimately show ?thesis by (simp add: newTextBlock_def)
qed

text \<open>C7, witness: the files \<open>a.png\<close>, \<open>b.csv\<close> and the text \<open>hi\<close>.\<close>

theorem C7_userMessage_content_witness:
  "content (userMessage sampleEnv (Some ''hi'') [Some aPng, Some bCsv]) =
     Arr [\<lparr>btype = ''input_image'', btext = None,
            image_url = Some ''data:image/png;base64,iVBORw=='', bnoShow = Some True\<rparr>,
          \<lparr>btype = ''input_text'',
            btext = Some ''CSV Data File (b.csv):\<newline>\<newline>x,y'',
            image_url = None, bnoShow = Some True\<rparr>,
          \<lparr>btype = ''input_text'', btext = Some ''hi'', image_url = None, bnoShow = None\<rparr>]"
proof -
  have "''hi'' \<noteq> []" by simp
  from C7_userMessage_content [OF this, of sampleEnv "[Some aPng, Some bCsv]"]
  show ?thesis
    by (simp add: processFile_aPng processFile_bCsv newTextBlock_def pngBlock_def)
qed

section \<open>C8: stripping \<open>noShow\<close> from the request\<close>

lemma stripNoShow_clean:
  "noShow (stripNoShow m) = None
   \<and> (\<forall>items. content (stripNoShow m) = Arr items \<longrightarrow> (\<forall>b \<in> set items. bnoShow b = None))"
  by (auto simp: stripNoShow_def split: content.splits)

lemma finish_history:
  "finish messages out = Inr r \<Longrightarrow> processChatHistory (messages @ out) = Inr (newChatHistory r)"
  by (auto simp: finish_def split: sum.splits)

lemma promptTutor_history:
  assumes "promptTutor E client chatHistory newMessage files cellType res strm = Inr r"
  shows "\<exists>out. processChatHistory (assemble E chatHistory newMessage files @ out) =
            Inr (newChatHistory r)"
proof -
  from assms obtain out where
    "finish (assemble E chatHistory newMessage files) out = Inr r"
    by (auto simp: promptTutor_def buildRequest_def Let_def
        split: sum.splits response.splits if_splits)
  then show ?thesis using finish_history by blast
qed

text \<open>
  C8, as amended: when \<open>promptTutor\<close> reaches the provider call, no message of the
  request's input and no block of such a message has \<open>noShow\<close>; the input is the
  stripped copy of the messages that are kept, and the kept messages are the assembled
  ones, unstripped, the history among them exactly as it was given. What is returned as
  \<open>newChatHistory\<close> is the compaction of the kept messages (followed by the output): there
  a kept message that is no reasoning item has the message-level \<open>noShow\<close> it came with,
  a reasoning item has \<open>noShow\<close> set, and a block sequence that is still there is the
  original one, flags included; where the compactor flattens the content to a string the
  blocks are gone and their flags with them.
\<close>

theorem C8_strip_outbound_only:
  assumes "buildRequest E chatHistory newMessage files cellType strm = Inr (messages, req)"
  shows "(\<forall>m \<in> set (input req). noShow m = None
            \<and> (\<forall>items. content m = Arr items \<longrightarrow> (\<forall>b \<in> set items. bnoShow b = None)))
         \<and> input req = map stripNoShow messages
         \<and> messages = assemble E chatHistory newMessage files
         \<and> take (length chatHistory) messages = chatHistory
         \<and> (promptTutor E client chatHistory newMessage files cellType res strm = Inr r
              \<longrightarrow> length messages \<le> length (newChatHistory r)
                \<and> (\<forall>i < length messages.
                     compactMessage (messages ! i) = Inr (newChatHistory r ! i)
                     \<and> noShow (newChatHistory r ! i) =
                         (if mtype (messages ! i) = Some ''reasoning'' then Some True
                          else noShow (messages ! i))
                     \<and> (\<forall>items. content (newChatHistory r ! i) = Arr items
                           \<longrightarrow> content (messages ! i) = Arr items)))"
proof -
  from assms have msgs: "messages = assemble E chatHistory newMessage files"
    and inp: "input req = map stripNoShow messages"
    by (auto simp: buildRequest_def Let_def split: sum.splits)
  have clean: "\<forall>m \<in> set (input req). noShow m = None
            \<and> (\<forall>items. content m = Arr items \<longrightarrow> (\<forall>b \<in> set items. bnoShow b = None))"
    unfolding inp using stripNoShow_clean by auto
  have kept: "take (length chatHistory) messages = chatHistory"
    unfolding msgs using assemble_prefix by simp
  have hist: "length messages \<le> length (newChatHistory r)
        \<and> (\<forall>i < length messages.
              compactMessage (messages ! i) = Inr (newChatHistory r ! i)
              \<and> noShow (newChatHistory r ! i) =
                  (if mtype (messages ! i) = Some ''reasoning'' then Some True
                   else noShow (messages ! i))
              \<and> (\<forall>items. content (newChatHistory r ! i) = Arr items
                    \<longrightarrow> content (messages ! i) = Arr items))"
    if run: "promptTutor E client chatHistory newMessage files cellType res strm = Inr r"
  proof -
    from promptTutor_history [OF run] obtain out where
      p: "processChatHistory (messages @ out) = Inr (newChatHistory r)"
      unfolding msgs by blast
    from processChatHistory_nth [OF p]
    have len: "length (newChatHistory r) = length (messages @ out)"
      and each: "\<forall>i < length (messages @ out).
          compactMessage ((messages @ out) ! i) = Inr (newChatHistory r ! i)"
      by simp_all
    have "compactMessage (messages ! i) = Inr (newChatHistory r ! i)
          \<and> noShow (newChatHistory r ! i) =
              (if mtype (messages ! i) = Some ''reasoning'' then Some True
               else noShow (messages ! i))
          \<and> (\<forall>items. content (newChatHistory r ! i) = Arr items
                \<longrightarrow> content (messages ! i) = Arr items)"
      if i: "i < length messages" for i
    proof -
      from i have "i < length (messages @ out)" by simp
      with each have "compactMessage ((messages @ out) ! i) = Inr (newChatHistory r ! i)"
        by blast
      with i have c: "compactMessage (messages ! i) = Inr (newChatHistory r ! i)"
        by (simp add: nth_append)
      show ?thesis
        using c compactMessage_noShow [OF c] compactMessage_Arr [OF c] by blast
    qed
    then show ?thesis using len by simp
  qed
  show ?thesis using clean inp msgs kept hist by blast
qed

text \<open>
  C8, witness: a history of one hidden image turn, the new text \<open>hi\<close> and the file
  \<open>a.png\<close>. The request holds both messages without any \<open>noShow\<close>; the returned history
  starts with the hidden turn, flags included, and goes on with the new turn, which had
  no message-level \<open>noShow\<close> and has none.
\<close>

theorem C8_strip_outbound_only_witness:
  "buildRequest sampleEnv [hiddenTurn] (Some ''hi'') [Some aPng] None False =
     Inr ([hiddenTurn, userMessage sampleEnv (Some ''hi'') [Some aPng]],
          \<lparr>model = ''gpt-5-mini'', input = sentInput, instructions = ''success'',
           stream = False\<rparr>)
   \<and> promptTutor sampleEnv sampleProvider [hiddenTurn] (Some ''hi'') [Some aPng] None
        False False = Inr tutorAnswer
   \<and> list_all (\<lambda>m. noShow m = None) sentInput
   \<and> noShow hiddenTurn = Some True
   \<and> noShow (newChatHistory tutorAnswer ! 0) = Some True
   \<and> content (newChatHistory tutorAnswer ! 0) = Arr [pngBlock]
   \<and> bnoShow pngBlock = Some True
   \<and> noShow (newChatHistory tutorAnswer ! 1) = None"
proof -
  define msgs where "msgs = [hiddenTurn, userMessage sampleEnv (Some ''hi'') [Some aPng]]"
  define req where "req =
     \<lparr>model = ''gpt-5-mini'', input = sentInput, instructions = ''success'', stream = False\<rparr>"
  have h: "hasImages [Some aPng] msgs = Inr True"
    by (simp add: hasImages_def fileIsImage_def fileExtension_aPng imageExtensions_def)
  have a: "assemble sampleEnv [hiddenTurn] (Some ''hi'') [Some aPng] = msgs"
    by (simp add: msgs_def assemble_def alreadyPresent_def lastUserText_def hiddenTurn_def
        pngBlock_def newMessageText_def)
  have s: "map stripNoShow msgs = sentInput"
    by (simp add: msgs_def sentInput_def stripNoShow_def hiddenTurn_def pngBlock_def
        userMessage_def messageContent_def processFile_aPng newTextBlock_def)
  have i: "selectInstructions sampleEnv None = ''success''"
    by (simp add: selectInstructions_def sampleEnv_def)
  have b: "buildRequest sampleEnv [hiddenTurn] (Some ''hi'') [Some aPng] None False =
      Inr (msgs, req)"
    by (simp add: buildRequest_def a h s req_def i)
  have c1: "compactMessage hiddenTurn = Inr hiddenTurn"
    by (simp add: compactMessage_def hiddenTurn_def pngBlock_def)
  have c2: "compactMessage (userMessage sampleEnv (Some ''hi'') [Some aPng]) =
      Inr \<lparr>role = Some ''user'', mtype = None, content = Str ''hi'', noShow = None\<rparr>"
    by (simp add: compactMessage_def userMessage_def messageContent_def processFile_aPng
        pngBlock_def newTextBlock_def)
  have run: "promptTutor sampleEnv sampleProvider [hiddenTurn] (Some ''hi'') [Some aPng] None
        False False = Inr tutorAnswer"
    by (simp add: promptTutor_def b req_def sampleProvider_def finish_def msgs_def c1 c2
        compactMessage_assistantMessage tutorAnswer_def)
  note inst = C8_strip_outbound_only [OF b, of sampleProvider False tutorAnswer]
  from inst have clean: "\<forall>m \<in> set (input req). noShow m = None" by blast
  from inst run have each: "\<forall>i < length msgs.
      noShow (newChatHistory tutorAnswer ! i) =
        (if mtype (msgs ! i) = Some ''reasoning'' then Some True else noShow (msgs ! i))"
    by blast
  from each have kept0: "noShow (newChatHistory tutorAnswer ! 0) = noShow hiddenTurn"
    by (simp add: msgs_def hiddenTurn_def)
  from each have "noShow (newChatHistory tutorAnswer ! 1) =
      noShow (userMessage sampleEnv (Some ''hi'') [Some aPng])"
    by (simp add: msgs_def userMessage_def)
  then have kept1: "noShow (newChatHistory tutorAnswer ! 1) = None"
    by (simp add: userMessage_def)
  from clean have "list_all (\<lambda>m. noShow m = None) sentInput"
    by (simp add: req_def list_all_iff)
  with b run kept0 kept1 show ?thesis
    by (simp add: msgs_def req_def hiddenTurn_def pngBlock_def tutorAnswer_def)
qed

text \<open>
  C8 as stated fails for the messages returned as \<open>newChatHistory\<close>. A reasoning item of
  the history that came without \<open>noShow\<close> is returned with \<open>noShow\<close> set. The new turn
  for the files \<open>a.png\<close>, \<open>b.csv\<close> and the text \<open>hi\<close> is kept with three blocks, two of
  them flagged, and is returned flattened to the text of the CSV block: the flags of its
  blocks are gone.
\<close>

theorem C8_counterexample:
  "noShow reasoningItem = None
   \<and> promptTutor sampleEnv sampleProvider [reasoningItem] (Some ''hi'') [] None False False =
       Inr \<lparr>response = [assistantMessage ''ok''],
            newChatHistory =
              [\<lparr>role = None, mtype = Some ''reasoning'', content = Undefined,
                noShow = Some True\<rparr>,
               \<lparr>role = Some ''user'', mtype = None, content = Str ''hi'', noShow = None\<rparr>,
               assistantMessage ''ok''],
            promptSuggestions = []\<rparr>
   \<and> map bnoShow (messageContent sampleEnv (Some ''hi'') [Some aPng, Some bCsv]) =
       [Some True, Some True, None]
   \<and> promptTutor sampleEnv sampleProvider [] (Some ''hi'') [Some aPng, Some bCsv] None
        False False =
       Inr \<lparr>response = [assistantMessage ''ok''],
            newChatHistory =
              [\<lparr>role = Some ''user'', mtype = None,
                content = Str ''CSV Data File (b.csv):\<newline>\<newline>x,y'', noShow = None\<rparr>,
               assistantMessage ''ok''],
            promptSuggestions = []\<rparr>"
proof -
  have a1: "assemble sampleEnv [reasoningItem] (Some ''hi'') [] =
      [reasoningItem, userMessage sampleEnv (Some ''hi'') []]"
    by (simp add: assemble_def alreadyPresent_def lastUserText_def reasoningItem_def)
  have r1: "compactMessage reasoningItem =
      Inr \<lparr>role = None, mtype = Some ''reasoning'', content = Undefined,
           noShow = Some True\<rparr>"
    by (simp add: compactMessage_def reasoningItem_def)
  have u1: "compactMessage (userMessage sampleEnv (Some ''hi'') []) =
      Inr \<lparr>role = Some ''user'', mtype = None, content = Str ''hi'', noShow = None\<rparr>"
    by (simp add: compactMessage_def userMessage_def messageContent_def newTextBlock_def)
  have run1: "promptTutor sampleEnv sampleProvider [reasoningItem] (Some ''hi'') [] None
        False False =
       Inr \<lparr>response = [assistantMessage ''ok''],
            newChatHistory =
              [\<lparr>role = None, mtype = Some ''reasoning'', content = Undefined,
                noShow = Some True\<rparr>,
               \<lparr>role = Some ''user'', mtype = None, content = Str ''hi'', noShow = None\<rparr>,
               assistantMessage ''ok''],
            promptSuggestions = []\<rparr>"
    by (simp add: promptTutor_def buildRequest_def Let_def hasImages_def
        hasImagesInMessages_def sampleProvider_def finish_def a1 r1 u1
        compactMessage_assistantMessage)
  have h2: "hasImages [Some aPng, Some bCsv]
        (assemble sampleEnv [] (Some ''hi'') [Some aPng, Some bCsv]) = Inr True"
    by (simp add: hasImages_def fileIsImage_def fileExtension_aPng imageExtensions_def)
  have a2: "assemble sampleEnv [] (Some ''hi'') [Some aPng, Some bCsv] =
      [userMessage sampleEnv (Some ''hi'') [Some aPng, Some bCsv]]"
    by (simp add: assemble_def alreadyPresent_def lastUserText_def)
  have u2: "compactMessage (userMessage sampleEnv (Some ''hi'') [Some aPng, Some bCsv]) =
      Inr \<lparr>role = Some ''user'', mtype = None,
           content = Str ''CSV Data File (b.csv):\<newline>\<newline>x,y'', noShow = None\<rparr>"
    by (simp add: compactMessage_def userMessage_def messageContent_def processFile_aPng
        processFile_bCsv pngBlock_def)
  have run2: "promptTutor sampleEnv sampleProvider [] (Some ''hi'') [Some aPng, Some bCsv]
        None False False =
       Inr \<lparr>response = [assistantMessage ''ok''],
            newChatHistory =
              [\<lparr>role = Some ''user'', mtype = None,
                content = Str ''CSV Data File (b.csv):\<newline>\<newline>x,y'', noShow = None\<rparr>,
               assistantMessage ''ok''],
            promptSuggestions = []\<rparr>"
    using h2 by (simp add: promptTutor_def buildRequest_def Let_def sampleProvider_def
        finish_def a2 u2 compactMessage_assistantMessage)
  have flags: "map bnoShow (messageContent sampleEnv (Some ''hi'') [Some aPng, Some bCsv]) =
       [Some True, Some True, None]"
    by (simp add: messageContent_def processFile_aPng processFile_bCsv pngBlock_def
        newTextBlock_def)
  show ?thesis using run1 run2 flags by (simp add: reasoningItem_def)
qed

section \<open>C9: the attachment classifier\<close>

text \<open>
  C9, as amended: \<open>processFile\<close> returns a value for every input (its body has no
  operation that can throw on a missing file or on a file with a buffer, so the model has
  no error result for it). A missing file gives \<open>null\<close>; a file is never classified as
  \<open>null\<close>; and a file whose extension is none of the supported ones, such as \<open>.exe\<close>,
  and whose leading bytes match no image signature gives the \<open>input_text\<close> block that
  says the type is unsupported and the content was not processed.
\<close>

theorem C9_processFile_total:
  "processFile E None = None
   \<and> (\<exists>b. processFile E (Some f) = Some b)
   \<and> (fileExtension f \<notin> set imageExtensions \<and> fileExtension f \<noteq> ''.py''
        \<and> fileExtension f \<noteq> ''.csv'' \<and> fileExtension f \<notin> set textExtensions
        \<and> isImageByContent (buffer f) = None
        \<longrightarrow> processFile E (Some f) =
             Some \<lparr>btype = ''input_text'',
                   btext = Some (''Unsupported File Type ('' @ fileExtension f @ '') - ''
                     @ shownName f
                     @ '':\<newline>\<newline>[File content could not be processed. Please convert to a supported format.]''),
                   image_url = None, bnoShow = Some True\<rparr>)"
proof (intro conjI impI)
  show "processFile E None = None" by (simp add: processFile_def)
next
  show "\<exists>b. processFile E (Some f) = Some b"
    using processFile_not_None [of E f] by (cases "processFile E (Some f)") auto
next
  assume "fileExtension f \<notin> set imageExtensions \<and> fileExtension f \<noteq> ''.py''
        \<and> fileExtension f \<noteq> ''.csv'' \<and> fileExtension f \<notin> set textExtensions
        \<and> isImageByContent (buffer f) = None"
  then show "processFile E (Some f) =
             Some \<lparr>btype = ''input_text'',
                   btext = Some (''Unsupported File Type ('' @ fileExtension f @ '') - ''
                     @ shownName f
                     @ '':\<newline>\<newline>[File content could not be processed. Please convert to a supported format.]''),
                   image_url = None, bnoShow = Some True\<rparr>"
    by (simp add: processFile_def textBlock_def unsupportedText_def)
qed

text \<open>C9, witness: the file \<open>setup.exe\<close>.\<close>

theorem C9_processFile_total_witness:
  "processFile sampleEnv None = None
   \<and> processFile sampleEnv (Some setupExe) =
       Some \<lparr>btype = ''input_text'',
             btext = Some ''Unsupported File Type (.exe) - setup.exe:\<newline>\<newline>[File content could not be processed. Please convert to a supported format.]'',
             image_url = None, bnoShow = Some True\<rparr>"
  using C9_processFile_total [of sampleEnv setupExe]
  by (simp add: fileExtension_setupExe imageExtensions_def textExtensions_def
      isImageByContent_samples shownName_samples)

text \<open>
  C9 as stated fails: the file \<open>x.exe\<close> has the extension \<open>.exe\<close> and starts with the
  bytes 42 4D; the sniff comes before the text rules and the file is classified as a
  bitmap image, not as the placeholder text.
\<close>

theorem C9_counterexample:
  "fileExtension xExe = ''.exe''
   \<and> processFile sampleEnv (Some xExe) =
       Some \<lparr>btype = ''input_image'', btext = None,
             image_url = Some ''data:image/bmp;base64,Qk0AAA=='', bnoShow = Some True\<rparr>"
  by (simp add: processFile_def fileExtension_xExe imageExtensions_def
      isImageByContent_samples imageBlock_def base64_samples)

section \<open>C10: the empty turn\<close>

text \<open>
  C10: when the new text is missing or empty and there are no files, the assembler
  appends a user message whose content is the empty block list, whatever the history
  is, and the request is built with one message more than the history.
\<close>

theorem C10_empty_turn:
  assumes "newMessage = None \<or> newMessage = Some []"
  shows "assemble E history newMessage [] =
           history @ [\<lparr>role = Some ''user'', mtype = None, content = Arr [], noShow = None\<rparr>]
         \<and> buildRequest E history newMessage [] cellType strm =
             Inr (history
                    @ [\<lparr>role = Some ''user'', mtype = None, content = Arr [], noShow = None\<rparr>],
                  \<lparr>model = ''gpt-5-mini'',
                   input = map stripNoShow history
                     @ [\<lparr>role = Some ''user'', mtype = None, content = Arr [], noShow = None\<rparr>],
                   instructions = selectInstructions E cellType, stream = strm\<rparr>)
         \<and> length (assemble E history newMessage []) = length history + 1"
proof -
  have np: "\<not> alreadyPresent history newMessage"
    using assms by (auto simp: alreadyPresent_def newMessageText_def split: option.splits)
  have um: "userMessage E newMessage [] =
      \<lparr>role = Some ''user'', mtype = None, content = Arr [], noShow = None\<rparr>"
    using assms by (auto simp: userMessage_def messageContent_def)
  have a: "assemble E history newMessage [] =
      history @ [\<lparr>role = Some ''user'', mtype = None, content = Arr [], noShow = None\<rparr>]"
    using np um by (simp add: assemble_def)
  have "buildRequest E history newMessage [] cellType strm =
      Inr (assemble E history newMessage [],
           \<lparr>model = ''gpt-5-mini'', input = map stripNoShow (assemble E history newMessage []),
            instructions = selectInstructions E cellType, stream = strm\<rparr>)"
    by (simp add: buildRequest_def hasImages_def Let_def)
  then show ?thesis using a by (simp add: stripNoShow_def)
qed

text \<open>C10, witness: an empty new text after one stored turn.\<close>

theorem C10_empty_turn_witness:
  "assemble sampleEnv [whatIs] (Some []) [] =
     [whatIs, \<lparr>role = Some ''user'', mtype = None, content = Arr [], noShow = None\<rparr>]
   \<and> buildRequest sampleEnv [whatIs] (Some []) [] (Some ''grader'') True =
       Inr ([whatIs, \<lparr>role = Some ''user'', mtype = None, content = Arr [], noShow = None\<rparr>],
            \<lparr>model = ''gpt-5-mini'',
             input = [whatIs,
               \<lparr>role = Some ''user'', mtype = None, content = Arr [], noShow = None\<rparr>],
             instructions = ''grade'', stream = True\<rparr>)"
  using C10_empty_turn [of "Some []" sampleEnv "[whatIs]" "Some ''grader''" True]
  by (simp add: stripNoShow_def whatIs_def selectInstructions_def sampleEnv_def)

end
